theory Spec2Isabelle
  imports Complex_Main "HOL-Library.Sublist"
begin

section \<open>JavaScript values used by the gate\<close>

text \<open>
  A JavaScript \<open>number\<close>. The gate code never computes with numbers, it only compares
  them, so a number is either \<open>NaN\<close>, one of the two infinities, or a finite value, taken
  here as a real (every double is one). \<open>js_lt\<close> is the operator \<open><\<close>, \<open>js_gt\<close> is
  \<open>></\<close> and \<open>js_le\<close> is \<open><=\<close>: every comparison with \<open>NaN\<close> is false.
\<close>

datatype number = NaN | NegInfinity | Finite real | Infinity

fun js_lt :: "number \<Rightarrow> number \<Rightarrow> bool" where
  "js_lt NaN b = False"
| "js_lt a NaN = False"
| "js_lt (Finite a) (Finite b) = (a < b)"
| "js_lt a NegInfinity = False"
| "js_lt NegInfinity b = True"
| "js_lt Infinity b = False"
| "js_lt (Finite a) Infinity = True"

definition js_gt :: "number \<Rightarrow> number \<Rightarrow> bool" where
  "js_gt a b = js_lt b a"

definition js_le :: "number \<Rightarrow> number \<Rightarrow> bool" where
  "js_le a b = (a \<noteq> NaN \<and> b \<noteq> NaN \<and> \<not> js_lt b a)"

text \<open>
  \<open>s.startsWith(p)\<close> on strings (search position 0).
\<close>

definition startsWith :: "string \<Rightarrow> string \<Rightarrow> bool" where
  "startsWith s p = prefix p s"

text \<open>
  What a \<open>throw\<close> carries. \<open>Error message\<close> is an object as \<open>new Error(message)\<close> leaves
  it: of class \<open>Error\<close> itself, with no property of its own changed. \<open>Thrown v\<close> is any
  other value, of a type the caller chooses: a primitive, an object, an instance of a
  subclass of \<open>Error\<close>, an \<open>Error\<close> whose \<open>toString\<close> or \<open>message\<close> was replaced.
\<close>

datatype 'x thrown = Error string | Thrown 'x

section \<open>alive-core/stg: types, policy and evaluation\<close>

datatype GateDecision = OPEN | DEFER | DENY

type_synonym CognitiveScope = string

record STGSignals =
  prediction_error :: number
  novelty_delta :: number
  resources_ok :: bool
  intent_authorized :: bool
  requested_scope :: CognitiveScope

record GateResult =
  decision :: GateDecision
  reason :: string

record STGPolicy =
  epsilon_prediction_error :: number
  delta_novelty :: number
  max_cognitive_duration_ms :: number
  max_compute_budget :: number
  cooldown_duration_ms :: number
  allowed_scopes :: "CognitiveScope set"
  policy_hash :: string

text \<open>
  The argument object of \<open>createSTGPolicy\<close>; \<open>allowed_scopes\<close> is any iterable, here the
  list of the elements it yields.
\<close>

record STGPolicyParams =
  p_epsilon_prediction_error :: number
  p_delta_novelty :: number
  p_max_cognitive_duration_ms :: number
  p_max_compute_budget :: number
  p_cooldown_duration_ms :: number
  p_allowed_scopes :: "CognitiveScope list"
  p_policy_hash :: string

text \<open>
  \<open>createSTGPolicy\<close> copies the seven fields into a frozen object. Its body has no
  \<open>throw\<close> and calls nothing that throws on a well-typed argument, so the result is
  always \<open>Inr\<close>; the sum type is there to state that.
\<close>

definition createSTGPolicy :: "STGPolicyParams \<Rightarrow> 'x thrown + STGPolicy" where
  "createSTGPolicy params = Inr \<lparr>
     epsilon_prediction_error = p_epsilon_prediction_error params,
     delta_novelty = p_delta_novelty params,
     max_cognitive_duration_ms = p_max_cognitive_duration_ms params,
     max_compute_budget = p_max_compute_budget params,
     cooldown_duration_ms = p_cooldown_duration_ms params,
     allowed_scopes = set (p_allowed_scopes params),
     policy_hash = p_policy_hash params \<rparr>"

definition evaluateGate :: "STGSignals \<Rightarrow> STGPolicy \<Rightarrow> number \<Rightarrow> number \<Rightarrow> GateResult" where
  "evaluateGate signals policy now cooldown_until_arg =
     (if js_lt now cooldown_until_arg then
        \<lparr> decision = GateDecision.DENY, reason = ''cooldown_active'' \<rparr>
      else if \<not> intent_authorized signals then
        \<lparr> decision = GateDecision.DENY, reason = ''unauthorized_intent'' \<rparr>
      else if \<not> resources_ok signals then
        \<lparr> decision = GateDecision.DEFER, reason = ''insufficient_resources'' \<rparr>
      else if js_le (prediction_error signals) (epsilon_prediction_error policy) then
        \<lparr> decision = GateDecision.DENY, reason = ''low_prediction_error'' \<rparr>
      else if js_le (novelty_delta signals) (delta_novelty policy) then
        \<lparr> decision = GateDecision.DENY, reason = ''low_novelty'' \<rparr>
      else
        \<lparr> decision = GateDecision.OPEN, reason = ''thresholds_satisfied'' \<rparr>)"

text \<open>
  The decision list as the specification words it: six rules in order, each a condition
  with its decision and reason, the last one unconditional; the first rule whose
  condition holds gives the result.
\<close>

definition spec_rules ::
  "STGSignals \<Rightarrow> STGPolicy \<Rightarrow> number \<Rightarrow> number \<Rightarrow> (bool \<times> GateDecision \<times> string) list" where
  "spec_rules signals policy now cooldownUntil =
     [ (js_lt now cooldownUntil, GateDecision.DENY, ''cooldown_active''),
       (\<not> intent_authorized signals, GateDecision.DENY, ''unauthorized_intent''),
       (\<not> resources_ok signals, GateDecision.DEFER, ''insufficient_resources''),
       (js_le (prediction_error signals) (epsilon_prediction_error policy),
          GateDecision.DENY, ''low_prediction_error''),
       (js_le (novelty_delta signals) (delta_novelty policy), GateDecision.DENY, ''low_novelty''),
       (True, GateDecision.OPEN, ''thresholds_satisfied'') ]"

fun first_match :: "(bool \<times> GateDecision \<times> string) list \<Rightarrow> GateResult option" where
  "first_match [] = None"
| "first_match ((c, d, r) # rules) =
     (if c then Some \<lparr> decision = d, reason = r \<rparr> else first_match rules)"

section \<open>alive-body/stg/audit: the audit log\<close>

text \<open>
  The event types of \<open>audit.ts\<close>, followed by the three that \<open>execute.ts\<close> writes
  (\<open>EXECUTION_START\<close>, \<open>EXECUTION_END\<close>, \<open>EXECUTION_ERROR\<close>).
\<close>

datatype AuditEventType =
    STG_OPEN | STG_CLOSE | STG_DEFER | STG_DENY
  | COGNITION_START | COGNITION_END | CONSTITUTIONAL_VIOLATION | GATE_EVALUATION
  | EXECUTION_START | EXECUTION_END | EXECUTION_ERROR

text \<open>
  The values stored in \<open>metadata\<close>: strings, numbers, \<open>null\<close>, \<open>undefined\<close>, booleans,
  and objects, which are references.
\<close>

datatype jsvalue =
  JString string | JNumber number | JNull | JUndefined | JBoolean bool | JObject nat

fun of_nullable :: "string option \<Rightarrow> jsvalue" where
  "of_nullable None = JNull"
| "of_nullable (Some s) = JString s"

text \<open>
  An optional field (\<open>stg_open_id?\<close>, \<open>scope?\<close>, \<open>metadata?\<close>) is \<open>None\<close> when it is
  absent or \<open>undefined\<close>; \<open>metadata\<close> lists its keys in the order written.
\<close>

record AuditEvent =
  type :: AuditEventType
  timestamp :: number
  reason :: string
  stg_open_id :: "string option"
  scope :: "string option"
  metadata :: "(string \<times> jsvalue) list option"

section \<open>alive-body/stg/state: the window state\<close>

datatype STGStatus = OPEN | CLOSED

fun status_string :: "STGStatus \<Rightarrow> string" where
  "status_string OPEN = ''OPEN''"
| "status_string CLOSED = ''CLOSED''"

record STGState =
  state :: STGStatus
  last_open_time :: "number option"
  expires_at :: "number option"
  scope :: "string option"
  stg_open_id :: "string option"
  cooldown_until :: number

section \<open>The world the modules live in\<close>

text \<open>
  Arrays are objects: a variable holds a reference, and \<open>arrays\<close> gives the contents
  behind each reference. \<open>var_state\<close> is the module variable \<open>_state\<close> of \<open>state.ts\<close>,
  \<open>var_log\<close> the module variable \<open>_log\<close> of \<open>audit.ts\<close> (a reference), \<open>next_ref\<close> the
  next unused reference, \<open>clock\<close> the time in milliseconds that \<open>Date.now()\<close> reads, and
  \<open>ext\<close> everything else a task can touch.
\<close>

type_synonym ref = nat

record 'w world =
  var_state :: STGState
  arrays :: "ref \<Rightarrow> AuditEvent list"
  var_log :: ref
  next_ref :: ref
  clock :: int
  ext :: 'w

definition Date_now :: "'w world \<Rightarrow> number" where
  "Date_now w = Finite (real_of_int (clock w))"

text \<open>\<open>_log.push(event)\<close>, on an ordinary array: it appends and does not throw.\<close>

definition logAuditEvent :: "AuditEvent \<Rightarrow> 'w world \<Rightarrow> 'w world" where
  "logAuditEvent event w =
     w\<lparr> arrays := (arrays w)(var_log w := arrays w (var_log w) @ [event]) \<rparr>"

text \<open>\<open>return _log\<close>: the result is the reference held by \<open>_log\<close>, not a new array.\<close>

definition getAuditLog :: "'w world \<Rightarrow> ref" where
  "getAuditLog w = var_log w"

text \<open>\<open>_log = []\<close>: a new empty array, and \<open>_log\<close> refers to it.\<close>

definition clearAuditLog :: "'w world \<Rightarrow> 'w world" where
  "clearAuditLog w =
     w\<lparr> arrays := (arrays w)(next_ref w := []),
        var_log := next_ref w,
        next_ref := Suc (next_ref w) \<rparr>"

text \<open>
  What a holder of an array reference can do with it: read the elements, and change them
  in place (\<open>push\<close>, \<open>pop\<close>, \<open>splice\<close>, \<open>length = 0\<close>, an indexed store), each of which
  replaces the contents behind the reference by a function of the old contents. The
  type \<open>readonly AuditEvent[]\<close> exists at compile time only. \<open>array_truncate\<close> is the
  assignment \<open>length = 0\<close>.
\<close>

definition read_array :: "ref \<Rightarrow> 'w world \<Rightarrow> AuditEvent list" where
  "read_array r w = arrays w r"

definition mutate_array ::
  "ref \<Rightarrow> (AuditEvent list \<Rightarrow> AuditEvent list) \<Rightarrow> 'w world \<Rightarrow> 'w world" where
  "mutate_array r f w = w\<lparr> arrays := (arrays w)(r := f (arrays w r)) \<rparr>"

definition array_truncate :: "AuditEvent list \<Rightarrow> AuditEvent list" where
  "array_truncate xs = []"

definition getSTGState :: "'w world \<Rightarrow> STGState" where
  "getSTGState w = var_state w"

definition setSTGState :: "STGState \<Rightarrow> 'w world \<Rightarrow> 'w world" where
  "setSTGState next w = w\<lparr> var_state := next \<rparr>"

definition closeSTG :: "number \<Rightarrow> 'w world \<Rightarrow> 'w world" where
  "closeSTG now w =
     w\<lparr> var_state := \<lparr>
          state = CLOSED,
          last_open_time = last_open_time (var_state w),
          expires_at = None,
          scope = None,
          stg_open_id = None,
          cooldown_until =
            (if js_gt (cooldown_until (var_state w)) now
             then cooldown_until (var_state w)
             else cooldown_until (var_state w)) \<rparr> \<rparr>"

text \<open>
  The fields of the argument object of \<open>openSTG\<close>, in the order \<open>now\<close>, \<open>expires_at\<close>,
  \<open>scope\<close>, \<open>stg_open_id\<close>, \<open>cooldown_until\<close>.
\<close>

definition openSTG ::
  "number \<Rightarrow> number \<Rightarrow> string \<Rightarrow> string \<Rightarrow> number \<Rightarrow> 'w world \<Rightarrow> 'w world" where
  "openSTG p_now p_expires_at p_scope p_stg_open_id p_cooldown_until w =
     w\<lparr> var_state := \<lparr>
          state = OPEN,
          last_open_time = Some p_now,
          expires_at = Some p_expires_at,
          scope = Some p_scope,
          stg_open_id = Some p_stg_open_id,
          cooldown_until = p_cooldown_until \<rparr> \<rparr>"

text \<open>
  The world at module load: \<open>_state\<close> is the initial \<open>CLOSED\<close> record and \<open>_log\<close> refers to
  an empty array.
\<close>

definition initial_world :: "int \<Rightarrow> 'w \<Rightarrow> 'w world" where
  "initial_world t x = \<lparr>
     var_state = \<lparr> state = CLOSED, last_open_time = None, expires_at = None,
                   scope = None, stg_open_id = None, cooldown_until = Finite 0 \<rparr>,
     arrays = (\<lambda>r. []),
     var_log = 0,
     next_ref = 1,
     clock = t,
     ext = x \<rparr>"

section \<open>alive-body/stg/gate: the enforcement boundary\<close>

text \<open>
  A task is a zero-argument callable that runs in the world: it returns a value or
  throws, and leaves the world as it made it (it may write anything, the clock moves).
\<close>

type_synonym ('w, 'x, 'a) task = "'w world \<Rightarrow> ('x thrown + 'a) \<times> 'w world"

definition isScopeAuthorized :: "string \<Rightarrow> string option \<Rightarrow> bool" where
  "isScopeAuthorized requested authorized =
     (case authorized of
        None \<Rightarrow> False
      | Some a \<Rightarrow> requested = a \<or> startsWith requested (a @ ''.''))"

text \<open>A value inside a template literal: \<open>null\<close> prints as \<open>null\<close>.\<close>

fun template_value :: "string option \<Rightarrow> string" where
  "template_value None = ''null''"
| "template_value (Some s) = s"

definition quoted :: "string \<Rightarrow> string" where
  "quoted s = [CHR 0x27] @ s @ [CHR 0x27]"

text \<open>
  \<open>state.expires_at !== null && now > state.expires_at\<close>
\<close>

definition expired :: "STGState \<Rightarrow> number \<Rightarrow> bool" where
  "expired st now =
     (case expires_at st of None \<Rightarrow> False | Some e \<Rightarrow> js_gt now e)"

text \<open>
  Converting a thrown value with \<open>String(error)\<close> runs code of the value: its
  \<open>toString\<close>, \<open>valueOf\<close> or \<open>Symbol.toPrimitive\<close>. That code returns a string or throws
  (as \<open>String(Object.create(null))\<close> does), and like a task it runs in the world. A
  conversion gives, for each value that is not a plain \<open>Error\<close>, what converting it
  does. For \<open>Error message\<close> the conversion is \<open>Error.prototype.toString\<close>: the name
  \<open>Error\<close>, then a colon and the message unless the message is empty.
\<close>

type_synonym ('w, 'x, 'r) conversion = "'x \<Rightarrow> 'w world \<Rightarrow> ('x thrown + 'r) \<times> 'w world"

fun String_of ::
  "('w, 'x, string) conversion \<Rightarrow> 'x thrown \<Rightarrow> 'w world \<Rightarrow> ('x thrown + string) \<times> 'w world" where
  "String_of toStr (Error message) w =
     (Inr (if message = [] then ''Error'' else ''Error: '' @ message), w)"
| "String_of toStr (Thrown v) w = toStr v w"

text \<open>
  \<open>runCognitiveCycle(task, requestedScope)\<close>. A \<open>throw\<close> is the result \<open>Inl\<close>, a
  \<open>return\<close> the result \<open>Inr\<close>. \<open>now\<close> and \<open>state\<close> are read once, on entry; the
  timestamp of \<open>COGNITION_END\<close> is a second reading of the clock, after the task.
  The first argument is the conversion \<open>String\<close> of the thrown values. In the \<open>catch\<close>
  block the event object is built first, its fields in the order written: the clock is
  read, then \<open>String(error)\<close> runs. When the conversion throws, that exception leaves the
  block: nothing is logged and \<open>throw error\<close> is not reached.
\<close>

definition runCognitiveCycle ::
  "('w, 'x, string) conversion \<Rightarrow> ('w, 'x, 'a) task \<Rightarrow> string \<Rightarrow> 'w world \<Rightarrow> ('x thrown + 'a) \<times> 'w world" where
  "runCognitiveCycle toStr task requestedScope w =
     (let now = Date_now w;
          st = getSTGState w
      in
      if state st \<noteq> OPEN then
        (Inl (Error ''CONSTITUTIONAL_VIOLATION: Cognition attempted without STG_OPEN''),
         logAuditEvent \<lparr>
           type = CONSTITUTIONAL_VIOLATION,
           timestamp = now,
           reason = ''no_stg_open'',
           AuditEvent.stg_open_id = None,
           AuditEvent.scope = Some requestedScope,
           metadata = Some [(''state'', JString (status_string (state st)))] \<rparr> w)
      else if expired st now then
        (Inl (Error ''CONSTITUTIONAL_VIOLATION: STG_OPEN has expired''),
         logAuditEvent \<lparr>
           type = CONSTITUTIONAL_VIOLATION,
           timestamp = now,
           reason = ''stg_expired'',
           AuditEvent.stg_open_id = STGState.stg_open_id st,
           AuditEvent.scope = Some requestedScope,
           metadata = Some [(''expires_at'',
                               (case expires_at st of None \<Rightarrow> JNull | Some e \<Rightarrow> JNumber e)),
                            (''now'', JNumber now)] \<rparr> w)
      else if \<not> isScopeAuthorized requestedScope (STGState.scope st) then
        (Inl (Error (''CONSTITUTIONAL_VIOLATION: Scope '' @ quoted requestedScope
                      @ '' not authorized (authorized: ''
                      @ quoted (template_value (STGState.scope st)) @ '')'')),
         logAuditEvent \<lparr>
           type = CONSTITUTIONAL_VIOLATION,
           timestamp = now,
           reason = ''unauthorized_cognition'',
           AuditEvent.stg_open_id = STGState.stg_open_id st,
           AuditEvent.scope = Some requestedScope,
           metadata = Some [(''authorized_scope'', of_nullable (STGState.scope st))] \<rparr> w)
      else
        (let w1 = logAuditEvent \<lparr>
                    type = COGNITION_START,
                    timestamp = now,
                    reason = ''authorized'',
                    AuditEvent.stg_open_id = STGState.stg_open_id st,
                    AuditEvent.scope = Some requestedScope,
                    metadata = None \<rparr> w;
             (outcome, w2) = task w1
         in
         case outcome of
           Inr result \<Rightarrow>
             (Inr result,
              logAuditEvent \<lparr>
                type = COGNITION_END,
                timestamp = Date_now w2,
                reason = ''completed'',
                AuditEvent.stg_open_id = STGState.stg_open_id st,
                AuditEvent.scope = Some requestedScope,
                metadata = None \<rparr> w2)
         | Inl error \<Rightarrow>
             (let failed_at = Date_now w2;
                  (converted, w3) = String_of toStr error w2
              in
              case converted of
                Inr text \<Rightarrow>
                  (Inl error,
                   logAuditEvent \<lparr>
                     type = COGNITION_END,
                     timestamp = failed_at,
                     reason = ''failed'',
                     AuditEvent.stg_open_id = STGState.stg_open_id st,
                     AuditEvent.scope = Some requestedScope,
                     metadata = Some [(''error'', JString text)] \<rparr> w3)
              | Inl conversion_error \<Rightarrow> (Inl conversion_error, w3))))"

section \<open>phase-38-execution/execute: the execution entry point\<close>

text \<open>
  \<open>error instanceof Error ? error.message : String(error)\<close>. For \<open>Error message\<close> it is
  the message. For any other value the argument \<open>toText\<close> gives what evaluating the
  expression does: reading \<open>message\<close> or converting runs code of the value, which returns
  some value or throws.
\<close>

fun error_text ::
  "('w, 'x, jsvalue) conversion \<Rightarrow> 'x thrown \<Rightarrow> 'w world \<Rightarrow> ('x thrown + jsvalue) \<times> 'w world" where
  "error_text toText (Error message) w = (Inr (JString message), w)"
| "error_text toText (Thrown v) w = toText v w"

text \<open>
  The fields of the request object of \<open>runExecution\<close> are its arguments here:
  \<open>request.scope\<close>, \<open>request.execute\<close> and the optional \<open>request.stg_open_id\<close>, which the
  function never reads. As in \<open>runCognitiveCycle\<close>, the \<open>catch\<close> block reads the clock,
  then evaluates the text of the error, and an exception there leaves the block.
\<close>

definition runExecution ::
  "('w, 'x, jsvalue) conversion \<Rightarrow> string \<Rightarrow> ('w, 'x, 'a) task \<Rightarrow> string option \<Rightarrow> 'w world
     \<Rightarrow> ('x thrown + 'a) \<times> 'w world" where
  "runExecution toText request_scope request_execute request_stg_open_id w =
     (let now = Date_now w;
          st = getSTGState w
      in
      if state st \<noteq> OPEN then
        (Inl (Error ''CONSTITUTIONAL_VIOLATION: Execution attempted without STG authorization (no_stg_open)''),
         logAuditEvent \<lparr>
           type = CONSTITUTIONAL_VIOLATION,
           timestamp = now,
           reason = ''no_stg_open'',
           AuditEvent.stg_open_id = None,
           AuditEvent.scope = Some request_scope,
           metadata = None \<rparr> w)
      else if expired st now then
        (Inl (Error ''CONSTITUTIONAL_VIOLATION: Execution attempted with expired authorization''),
         closeSTG now
           (logAuditEvent \<lparr>
              type = CONSTITUTIONAL_VIOLATION,
              timestamp = now,
              reason = ''authorization_expired'',
              AuditEvent.stg_open_id = None,
              AuditEvent.scope = Some request_scope,
              metadata = Some [(''expires_at'',
                                  (case expires_at st of None \<Rightarrow> JNull | Some e \<Rightarrow> JNumber e))] \<rparr> w))
      else if STGState.scope st \<noteq> Some request_scope then
        (Inl (Error (''CONSTITUTIONAL_VIOLATION: Execution scope '' @ quoted request_scope
                      @ '' not authorized (authorized: ''
                      @ quoted (template_value (STGState.scope st)) @ '')'')),
         logAuditEvent \<lparr>
           type = CONSTITUTIONAL_VIOLATION,
           timestamp = now,
           reason = ''unauthorized_execution'',
           AuditEvent.stg_open_id = None,
           AuditEvent.scope = Some request_scope,
           metadata = Some [(''authorized_scope'', of_nullable (STGState.scope st))] \<rparr> w)
      else
        (let w1 = logAuditEvent \<lparr>
                    type = EXECUTION_START,
                    timestamp = now,
                    reason = ''execution_started'',
                    AuditEvent.stg_open_id = STGState.stg_open_id st,
                    AuditEvent.scope = Some request_scope,
                    metadata = None \<rparr> w;
             (outcome, w2) = request_execute w1
         in
         case outcome of
           Inr result \<Rightarrow>
             (Inr result,
              logAuditEvent \<lparr>
                type = EXECUTION_END,
                timestamp = Date_now w2,
                reason = ''execution_completed'',
                AuditEvent.stg_open_id = STGState.stg_open_id st,
                AuditEvent.scope = Some request_scope,
                metadata = None \<rparr> w2)
         | Inl error \<Rightarrow>
             (let failed_at = Date_now w2;
                  (converted, w3) = error_text toText error w2
              in
              case converted of
                Inr text \<Rightarrow>
                  (Inl error,
                   logAuditEvent \<lparr>
                     type = EXECUTION_ERROR,
                     timestamp = failed_at,
                     reason = ''execution_failed'',
                     AuditEvent.stg_open_id = None,
                     AuditEvent.scope = Some request_scope,
                     metadata = Some [(''error'', text)] \<rparr> w3)
              | Inl conversion_error \<Rightarrow> (Inl conversion_error, w3))))"

section \<open>Callers\<close>

text \<open>
  A call is unauthorized in a window state, at a time, for a scope, when the window is
  not open, or has expired, or does not cover the scope.
\<close>

definition unauthorized :: "STGState \<Rightarrow> number \<Rightarrow> string \<Rightarrow> bool" where
  "unauthorized st now requestedScope =
     (state st \<noteq> OPEN \<or> expired st now \<or> \<not> isScopeAuthorized requestedScope (STGState.scope st))"

text \<open>
  What it is for a call to run its task: \<open>COGNITION_START\<close> is appended to the log and
  the task runs in the world so obtained. If the task returns, the call appends
  \<open>COGNITION_END\<close> with reason \<open>completed\<close> to the world the task left and returns the
  task's value. If the task throws a value that converts to a string, the call appends
  \<open>COGNITION_END\<close> with reason \<open>failed\<close> and that string, and throws the same value.
  The call returns exactly when the task does.
\<close>

definition runs_task ::
  "('w, 'x, string) conversion \<Rightarrow> ('w, 'x, 'a) task \<Rightarrow> string \<Rightarrow> 'w world \<Rightarrow> bool" where
  "runs_task toStr task requestedScope w =
     (let started = \<lparr> type = COGNITION_START, timestamp = Date_now w,
                       reason = ''authorized'',
                       AuditEvent.stg_open_id = STGState.stg_open_id (var_state w),
                       AuditEvent.scope = Some requestedScope, metadata = None \<rparr>;
          w1 = logAuditEvent started w;
          R = runCognitiveCycle toStr task requestedScope w
      in read_array (getAuditLog w1) w1 = read_array (getAuditLog w) w @ [started]
       \<and> (\<forall>result w2. task w1 = (Inr result, w2) \<longrightarrow>
             (let ended = \<lparr> type = COGNITION_END, timestamp = Date_now w2,
                             reason = ''completed'',
                             AuditEvent.stg_open_id = STGState.stg_open_id (var_state w),
                             AuditEvent.scope = Some requestedScope, metadata = None \<rparr>
              in R = (Inr result, logAuditEvent ended w2)
               \<and> read_array (getAuditLog (snd R)) (snd R)
                   = read_array (getAuditLog w2) w2 @ [ended]))
       \<and> (\<forall>error w2 text w3.
             task w1 = (Inl error, w2) \<and> String_of toStr error w2 = (Inr text, w3) \<longrightarrow>
             (let ended = \<lparr> type = COGNITION_END, timestamp = Date_now w2,
                             reason = ''failed'',
                             AuditEvent.stg_open_id = STGState.stg_open_id (var_state w),
                             AuditEvent.scope = Some requestedScope,
                             metadata = Some [(''error'', JString text)] \<rparr>
              in R = (Inl error, logAuditEvent ended w3)
               \<and> read_array (getAuditLog (snd R)) (snd R)
                   = read_array (getAuditLog w3) w3 @ [ended]))
       \<and> ((\<exists>result. fst R = Inr result) \<longleftrightarrow> (\<exists>result. fst (task w1) = Inr result)))"

text \<open>
  A caller that retries, as the loops of the test suite do:
  \<open>for (...) { try { runCognitiveCycle(task, scope) } catch { } }\<close>.
  Each attempt has its own task and scope and is made when the clock reads the given
  time; the outcomes are collected in order.
\<close>

fun attempts ::
  "('w, 'x, string) conversion \<Rightarrow> (int \<times> ('w, 'x, 'a) task \<times> string) list \<Rightarrow> 'w world
     \<Rightarrow> ('x thrown + 'a) list \<times> 'w world" where
  "attempts toStr [] w = ([], w)"
| "attempts toStr ((t, task, requestedScope) # rest) w =
     (let (outcome, w1) = runCognitiveCycle toStr task requestedScope (w\<lparr> clock := t \<rparr>);
          (outcomes, w2) = attempts toStr rest w1
      in (outcome # outcomes, w2))"

section \<open>Fixtures\<close>

text \<open>
  The values the test suite works with: a task that sets an outside flag and returns, a
  task that sets the flag and throws, a window opened at time 0 for the scope
  \<open>demo.think-once\<close> that expires at time 100, and the policy and signals of the tests.
  Where the only thrown value besides a plain \<open>Error\<close> is \<open>undefined\<close>, its conversions
  are \<open>String(undefined)\<close>, the string \<open>undefined\<close>, and the value \<open>undefined\<close> itself.
\<close>

definition String_undefined :: "('w, unit, string) conversion" where
  "String_undefined v w = (Inr ''undefined'', w)"

definition text_undefined :: "('w, unit, jsvalue) conversion" where
  "text_undefined v w = (Inr (JString ''undefined''), w)"

text \<open>
  Two more thrown values: an object without prototype, as \<open>Object.create(null)\<close> makes
  it, and the \<open>TypeError\<close> that converting such an object to a string throws. A task that
  sets the flag and throws the object.
\<close>

datatype sample_value = Null_prototype_object | Cannot_convert_TypeError

fun String_sample :: "('w, sample_value, string) conversion" where
  "String_sample Null_prototype_object w = (Inl (Thrown Cannot_convert_TypeError), w)"
| "String_sample Cannot_convert_TypeError w =
     (Inr ''TypeError: Cannot convert object to primitive value'', w)"

definition opaque_throw_task :: "(bool, sample_value, string) task" where
  "opaque_throw_task w = (Inl (Thrown Null_prototype_object), w\<lparr> ext := True \<rparr>)"

definition flag_task :: "(bool, unit, string) task" where
  "flag_task w = (Inr ''X'', w\<lparr> ext := True \<rparr>)"

definition throwing_task :: "(bool, unit, string) task" where
  "throwing_task w = (Inl (Error ''TASK_EXECUTED''), w\<lparr> ext := True, clock := clock w + 5 \<rparr>)"

definition demo_window :: "int \<Rightarrow> bool world" where
  "demo_window t =
     (openSTG (Finite 0) (Finite 100) ''demo.think-once'' ''id-1'' (Finite 10000)
        (initial_world 0 False)) \<lparr> clock := t \<rparr>"

definition demo_policy :: STGPolicy where
  "demo_policy = \<lparr>
     epsilon_prediction_error = Finite (1/10),
     delta_novelty = Finite (1/10),
     max_cognitive_duration_ms = Finite 5000,
     max_compute_budget = Finite 1000,
     cooldown_duration_ms = Finite 10000,
     allowed_scopes = {''demo.think-once''},
     policy_hash = ''test-policy-hash'' \<rparr>"

definition demo_signals :: "real \<Rightarrow> real \<Rightarrow> bool \<Rightarrow> bool \<Rightarrow> STGSignals" where
  "demo_signals pe nd res intent = \<lparr>
     prediction_error = Finite pe, novelty_delta = Finite nd,
     resources_ok = res, intent_authorized = intent,
     requested_scope = ''demo.think-once'' \<rparr>"

definition unbounded_window :: "int \<Rightarrow> bool world" where
  "unbounded_window t =
     setSTGState \<lparr> state = OPEN, last_open_time = Some (Finite 0), expires_at = None,
                    scope = Some ''demo.think-once'', stg_open_id = Some ''id-2'',
                    cooldown_until = Finite 0 \<rparr> ((initial_world 0 False) \<lparr> clock := t \<rparr>)"

text \<open>
  Parameters that break every input constraint of the specification, an event to log,
  and a burst of three attempts on the demo window: one after expiry, one for a scope
  the window does not cover, one after expiry with a task that throws.
\<close>

definition bad_params :: STGPolicyParams where
  "bad_params = \<lparr>
     p_epsilon_prediction_error = Finite (- 1),
     p_delta_novelty = Finite (- 1),
     p_max_cognitive_duration_ms = Finite (- 5000),
     p_max_compute_budget = Finite (- 1000),
     p_cooldown_duration_ms = Finite (- 10000),
     p_allowed_scopes = [],
     p_policy_hash = ''test-policy-hash'' \<rparr>"

definition sample_event :: AuditEvent where
  "sample_event = \<lparr> type = STG_OPEN, timestamp = Finite 1, reason = ''thresholds_satisfied'',
     AuditEvent.stg_open_id = Some ''id-1'', AuditEvent.scope = Some ''demo.think-once'',
     metadata = None \<rparr>"

definition burst_calls :: "(int \<times> (bool, unit, string) task \<times> string) list" where
  "burst_calls =
     [ (150, flag_task, ''demo.think-once''),
       (50, flag_task, ''cognition.runaway''),
       (200, throwing_task, ''demo.think-once'') ]"

section \<open>The four ways through \<open>runCognitiveCycle\<close>\<close>

lemma runCognitiveCycle_not_open:
  "state (var_state w) \<noteq> OPEN \<Longrightarrow>
   runCognitiveCycle toStr task requestedScope w =
     (Inl (Error ''CONSTITUTIONAL_VIOLATION: Cognition attempted without STG_OPEN''),
      logAuditEvent \<lparr> type = CONSTITUTIONAL_VIOLATION, timestamp = Date_now w,
        reason = ''no_stg_open'', AuditEvent.stg_open_id = None,
        AuditEvent.scope = Some requestedScope,
        metadata = Some [(''state'', JString ''CLOSED'')] \<rparr> w)"
  by (cases "state (var_state w)") (simp_all add: runCognitiveCycle_def Let_def getSTGState_def)

lemma runCognitiveCycle_expired:
  "state (var_state w) = OPEN \<Longrightarrow> expires_at (var_state w) = Some e \<Longrightarrow> js_gt (Date_now w) e \<Longrightarrow>
   runCognitiveCycle toStr task requestedScope w =
     (Inl (Error ''CONSTITUTIONAL_VIOLATION: STG_OPEN has expired''),
      logAuditEvent \<lparr> type = CONSTITUTIONAL_VIOLATION, timestamp = Date_now w,
        reason = ''stg_expired'', AuditEvent.stg_open_id = STGState.stg_open_id (var_state w),
        AuditEvent.scope = Some requestedScope,
        metadata = Some [(''expires_at'', JNumber e), (''now'', JNumber (Date_now w))] \<rparr> w)"
  by (simp add: runCognitiveCycle_def Let_def getSTGState_def expired_def)

lemma runCognitiveCycle_unauthorized_scope:
  "state (var_state w) = OPEN \<Longrightarrow> \<not> expired (var_state w) (Date_now w) \<Longrightarrow>
   \<not> isScopeAuthorized requestedScope (STGState.scope (var_state w)) \<Longrightarrow>
   runCognitiveCycle toStr task requestedScope w =
     (Inl (Error (''CONSTITUTIONAL_VIOLATION: Scope '' @ quoted requestedScope
                   @ '' not authorized (authorized: ''
                   @ quoted (template_value (STGState.scope (var_state w))) @ '')'')),
      logAuditEvent \<lparr> type = CONSTITUTIONAL_VIOLATION, timestamp = Date_now w,
        reason = ''unauthorized_cognition'',
        AuditEvent.stg_open_id = STGState.stg_open_id (var_state w),
        AuditEvent.scope = Some requestedScope,
        metadata = Some [(''authorized_scope'', of_nullable (STGState.scope (var_state w)))] \<rparr> w)"
  by (simp add: runCognitiveCycle_def Let_def getSTGState_def)

lemma isScopeAuthorized_Some:
  "isScopeAuthorized s (Some a) = (s = a \<or> prefix (a @ ''.'') s)"
  by (simp add: isScopeAuthorized_def startsWith_def)

lemma js_le_not_gt: "js_le a b \<Longrightarrow> \<not> js_gt a b"
  by (simp add: js_le_def js_gt_def)

lemma unauthorized_violation:
  assumes "unauthorized (var_state w) (Date_now w) requestedScope"
  shows "\<exists>msg ev. runCognitiveCycle toStr task requestedScope w = (Inl (Error msg), logAuditEvent ev w)
           \<and> type ev = CONSTITUTIONAL_VIOLATION"
proof (cases "state (var_state w) = OPEN")
  case False
  show ?thesis unfolding runCognitiveCycle_not_open[OF False]
    by (intro exI conjI) (rule refl, simp)
next
  case isopen: True
  show ?thesis
  proof (cases "expired (var_state w) (Date_now w)")
    case True
    then obtain e where e: "expires_at (var_state w) = Some e" and gt: "js_gt (Date_now w) e"
      by (auto simp: expired_def split: option.splits)
    show ?thesis unfolding runCognitiveCycle_expired[OF isopen e gt]
      by (intro exI conjI) (rule refl, simp)
  next
    case False
    with assms isopen have na: "\<not> isScopeAuthorized requestedScope (STGState.scope (var_state w))"
      by (simp add: unauthorized_def)
    show ?thesis unfolding runCognitiveCycle_unauthorized_scope[OF isopen False na]
      by (intro exI conjI) (rule refl, simp)
  qed
qed

lemma attempts_unauthorized:
  assumes "\<forall>(t, task, requestedScope) \<in> set calls.
             unauthorized (var_state w) (Finite (real_of_int t)) requestedScope"
  shows "\<exists>evs c. 
           snd (attempts toStr calls w) = w\<lparr> clock := c, arrays := (arrays w)(var_log w := arrays w (var_log w) @ evs) \<rparr>
           \<and> length evs = length calls
           \<and> (\<forall>ev \<in> set evs. type ev = CONSTITUTIONAL_VIOLATION)
           \<and> length (fst (attempts toStr calls w)) = length calls
           \<and> (\<forall>r \<in> set (fst (attempts toStr calls w)). \<exists>msg. r = Inl (Error msg))"
  using assms
proof (induction calls arbitrary: w)
  case Nil
  have "w = w\<lparr> clock := clock w, arrays := (arrays w)(var_log w := arrays w (var_log w) @ []) \<rparr>" by simp
  then show ?case by (intro exI[of _ "[]"] exI[of _ "clock w"]) simp
next
  case (Cons call rest)
  obtain t task sc where call: "call = (t, task, sc)" by (cases call) auto
  let ?w0 = "w\<lparr> clock := t \<rparr>"
  from Cons.prems call have "unauthorized (var_state ?w0) (Date_now ?w0) sc"
    by (simp add: Date_now_def)
  from unauthorized_violation[OF this, of toStr task]
  obtain msg ev where run: "runCognitiveCycle toStr task sc ?w0 = (Inl (Error msg), logAuditEvent ev ?w0)"
    and ev: "type ev = CONSTITUTIONAL_VIOLATION" by blast
  let ?w1 = "logAuditEvent ev ?w0"
  have st1: "var_state ?w1 = var_state w" by (simp add: logAuditEvent_def)
  from Cons.prems have "\<forall>(t, task, requestedScope) \<in> set rest.
             unauthorized (var_state ?w1) (Finite (real_of_int t)) requestedScope"
    by (simp add: st1)
  from Cons.IH[OF this] obtain evs c where
    w2: "snd (attempts toStr rest ?w1) = ?w1\<lparr> clock := c, arrays := (arrays ?w1)(var_log ?w1 := arrays ?w1 (var_log ?w1) @ evs) \<rparr>"
    and len: "length evs = length rest"
    and types: "\<forall>ev \<in> set evs. type ev = CONSTITUTIONAL_VIOLATION"
    and lenr: "length (fst (attempts toStr rest ?w1)) = length rest"
    and errs: "\<forall>r \<in> set (fst (attempts toStr rest ?w1)). \<exists>msg. r = Inl (Error msg)"
    by blast
  have unfold: "attempts toStr (call # rest) w =
      (Inl (Error msg) # fst (attempts toStr rest ?w1), snd (attempts toStr rest ?w1))"
    by (simp add: call run split: prod.splits)
  have final: "snd (attempts toStr (call # rest) w) =
      w\<lparr> clock := c, arrays := (arrays w)(var_log w := arrays w (var_log w) @ (ev # evs)) \<rparr>"
    unfolding unfold snd_conv w2 by (simp add: logAuditEvent_def)
  show ?case
  proof (intro exI conjI)
    show "snd (attempts toStr (call # rest) w) =
      w\<lparr> clock := c, arrays := (arrays w)(var_log w := arrays w (var_log w) @ (ev # evs)) \<rparr>"
      by (rule final)
    show "length (ev # evs) = length (call # rest)" using len by simp
    show "\<forall>e \<in> set (ev # evs). type e = CONSTITUTIONAL_VIOLATION" using ev types by simp
    show "length (fst (attempts toStr (call # rest) w)) = length (call # rest)"
      unfolding unfold using lenr by simp
    show "\<forall>r \<in> set (fst (attempts toStr (call # rest) w)). \<exists>msg. r = Inl (Error msg)"
      unfolding unfold using errs by simp
  qed
qed

lemma logAuditEvent_appends:
  "read_array (getAuditLog (logAuditEvent e w)) (logAuditEvent e w)
     = read_array (getAuditLog w) w @ [e]"
  by (simp add: logAuditEvent_def read_array_def getAuditLog_def)

lemma logAuditEvent_frame:
  "var_state (logAuditEvent e w) = var_state w"
  "ext (logAuditEvent e w) = ext w"
  "clock (logAuditEvent e w) = clock w"
  by (simp_all add: logAuditEvent_def)

lemma runCognitiveCycle_runs_task:
  assumes "state (var_state w) = OPEN"
      and "\<not> expired (var_state w) (Date_now w)"
      and "isScopeAuthorized s (STGState.scope (var_state w))"
  shows "runs_task toStr task s w"
proof -
  let ?w1 = "logAuditEvent \<lparr> type = COGNITION_START, timestamp = Date_now w,
                       reason = ''authorized'',
                       AuditEvent.stg_open_id = STGState.stg_open_id (var_state w),
                       AuditEvent.scope = Some s, metadata = None \<rparr> w"
  obtain outcome w2 where t: "task ?w1 = (outcome, w2)"
    by (cases "task ?w1") auto
  show ?thesis
  proof (cases outcome)
    case (Inr result)
    with t assms show ?thesis
      by (simp add: runs_task_def runCognitiveCycle_def Let_def getSTGState_def
            logAuditEvent_appends)
  next
    case (Inl error)
    obtain converted w3 where c: "String_of toStr error w2 = (converted, w3)"
      by (cases "String_of toStr error w2") auto
    show ?thesis
    proof (cases converted)
      case (Inr str)
      with t c Inl assms show ?thesis
        by (simp add: runs_task_def runCognitiveCycle_def Let_def getSTGState_def
              logAuditEvent_appends)
    next
      case inner: (Inl conversion_error)
      with t c Inl assms show ?thesis
        by (simp add: runs_task_def runCognitiveCycle_def Let_def getSTGState_def
              logAuditEvent_appends)
    qed
  qed
qed

lemma runCognitiveCycle_conversion_error:
  assumes "state (var_state w) = OPEN"
      and "\<not> expired (var_state w) (Date_now w)"
      and "isScopeAuthorized s (STGState.scope (var_state w))"
      and "task (logAuditEvent \<lparr> type = COGNITION_START, timestamp = Date_now w,
                   reason = ''authorized'',
                   AuditEvent.stg_open_id = STGState.stg_open_id (var_state w),
                   AuditEvent.scope = Some s, metadata = None \<rparr> w) = (Inl error, w2)"
      and "String_of toStr error w2 = (Inl conversion_error, w3)"
  shows "runCognitiveCycle toStr task s w = (Inl conversion_error, w3)"
  using assms by (simp add: runCognitiveCycle_def Let_def getSTGState_def)

section \<open>The audit log behind its reference\<close>

lemma getAuditLog_insertion_order:
  "read_array (getAuditLog (fold logAuditEvent es w)) (fold logAuditEvent es w)
     = read_array (getAuditLog w) w @ es"
  by (induction es arbitrary: w) (simp_all add: logAuditEvent_appends)

lemma getAuditLog_mutation_visible:
  "read_array (getAuditLog (mutate_array (getAuditLog w) f w)) (mutate_array (getAuditLog w) f w)
     = f (read_array (getAuditLog w) w)"
  by (simp add: mutate_array_def read_array_def getAuditLog_def)

section \<open>The fixtures, evaluated\<close>

lemma demo_window_simps:
  "state (var_state (demo_window t)) = OPEN"
  "STGState.scope (var_state (demo_window t)) = Some ''demo.think-once''"
  "expires_at (var_state (demo_window t)) = Some (Finite 100)"
  "STGState.stg_open_id (var_state (demo_window t)) = Some ''id-1''"
  "Date_now (demo_window t) = Finite (real_of_int t)"
  "ext (demo_window t) = False"
  "arrays (demo_window t) = (\<lambda>r. [])"
  "var_log (demo_window t) = 0"
  "clock (demo_window t) = t"
  by (simp_all add: demo_window_def openSTG_def initial_world_def Date_now_def)

section \<open>Properties\<close>

text \<open>
  The specification renames what the code names: \<open>runGated\<close> is \<open>runCognitiveCycle\<close>,
  the event type \<open>VIOLATION\<close> is \<open>CONSTITUTIONAL_VIOLATION\<close>, \<open>ACTION_START\<close> and
  \<open>ACTION_END\<close> are \<open>COGNITION_START\<close> and \<open>COGNITION_END\<close>, the reasons
  \<open>no_window_open\<close>, \<open>window_expired\<close> and \<open>unauthorized_scope\<close> are \<open>no_stg_open\<close>,
  \<open>stg_expired\<close> and \<open>unauthorized_cognition\<close>, \<open>windowId\<close> is \<open>stg_open_id\<close>, and a
  \<open>GateViolation\<close> is the \<open>Error\<close> thrown with a message that starts with
  \<open>CONSTITUTIONAL_VIOLATION:\<close>. The theorems use the names of the code.
\<close>

text \<open>
  C1. In an open window that has not expired and authorizes the scope \<open>a\<close>, a call for
  the scope \<open>s\<close> runs the task (\<open>runs_task\<close>: it logs \<open>COGNITION_START\<close>, and the
  outcome is the task's) when \<open>s = a\<close> or \<open>s\<close> starts with \<open>a\<close> followed by a dot. For
  every other \<open>s\<close> the call throws, and the world after it is the world before it with
  one event appended to the log, a \<open>CONSTITUTIONAL_VIOLATION\<close> with reason
  \<open>unauthorized_cognition\<close>: the task has not run. The call returns if and only if \<open>s\<close>
  is such a scope and the task returns.
\<close>

theorem runCognitiveCycle_scope_authorization:
  assumes "state (var_state w) = OPEN"
      and "\<not> expired (var_state w) (Date_now w)"
      and "STGState.scope (var_state w) = Some a"
  shows "let violation = \<lparr> type = CONSTITUTIONAL_VIOLATION, timestamp = Date_now w,
                           reason = ''unauthorized_cognition'',
                           AuditEvent.stg_open_id = STGState.stg_open_id (var_state w),
                           AuditEvent.scope = Some s,
                           metadata = Some [(''authorized_scope'', JString a)] \<rparr>;
             w1 = logAuditEvent \<lparr> type = COGNITION_START, timestamp = Date_now w,
                    reason = ''authorized'',
                    AuditEvent.stg_open_id = STGState.stg_open_id (var_state w),
                    AuditEvent.scope = Some s, metadata = None \<rparr> w;
             R = runCognitiveCycle toStr task s w
         in ((s = a \<or> prefix (a @ ''.'') s) \<longrightarrow> runs_task toStr task s w)
          \<and> (\<not> (s = a \<or> prefix (a @ ''.'') s) \<longrightarrow>
               fst R = Inl (Error (''CONSTITUTIONAL_VIOLATION: Scope '' @ quoted s
                                    @ '' not authorized (authorized: '' @ quoted a @ '')''))
               \<and> snd R = logAuditEvent violation w
               \<and> read_array (getAuditLog (snd R)) (snd R)
                   = read_array (getAuditLog w) w @ [violation]
               \<and> var_state (snd R) = var_state w \<and> ext (snd R) = ext w
               \<and> clock (snd R) = clock w)
          \<and> ((\<exists>v. fst R = Inr v)
               \<longleftrightarrow> (s = a \<or> prefix (a @ ''.'') s) \<and> (\<exists>v. fst (task w1) = Inr v))"
proof (cases "s = a \<or> prefix (a @ ''.'') s")
  case True
  then have auth: "isScopeAuthorized s (STGState.scope (var_state w))"
    by (simp add: assms(3) isScopeAuthorized_Some)
  have run: "runs_task toStr task s w"
    by (rule runCognitiveCycle_runs_task[OF assms(1,2) auth])
  from run have returns: "(\<exists>v. fst (runCognitiveCycle toStr task s w) = Inr v)
      \<longleftrightarrow> (\<exists>v. fst (task (logAuditEvent \<lparr> type = COGNITION_START, timestamp = Date_now w,
                    reason = ''authorized'',
                    AuditEvent.stg_open_id = STGState.stg_open_id (var_state w),
                    AuditEvent.scope = Some s, metadata = None \<rparr> w)) = Inr v)"
    by (simp add: runs_task_def Let_def)
  show ?thesis
    unfolding Let_def using True run returns by blast
next
  case False
  then have nauth: "\<not> isScopeAuthorized s (STGState.scope (var_state w))"
    by (simp add: assms(3) isScopeAuthorized_Some)
  show ?thesis
    unfolding Let_def runCognitiveCycle_unauthorized_scope[OF assms(1,2) nauth]
    using False by (simp add: assms(3) logAuditEvent_appends logAuditEvent_frame)
qed

text \<open>
  C1, on the demo window at time 50: the authorized scope itself and a descendant of it
  run the task, and the log shows the start and the end; a scope that only continues
  the name without a dot is refused, the log holds the violation alone and the flag is
  not set; an ancestor is refused.
\<close>

theorem runCognitiveCycle_scope_authorization_witness:
  "state (var_state (demo_window 50)) = OPEN
   \<and> \<not> expired (var_state (demo_window 50)) (Date_now (demo_window 50))
   \<and> STGState.scope (var_state (demo_window 50)) = Some ''demo.think-once''
   \<and> fst (runCognitiveCycle String_undefined flag_task ''demo.think-once'' (demo_window 50))
       = Inr ''X''
   \<and> map reason
        (read_array
          (getAuditLog (snd (runCognitiveCycle String_undefined flag_task ''demo.think-once''
                               (demo_window 50))))
          (snd (runCognitiveCycle String_undefined flag_task ''demo.think-once''
                  (demo_window 50))))
       = [''authorized'', ''completed'']
   \<and> fst (runCognitiveCycle String_undefined flag_task ''demo.think-once.step'' (demo_window 50))
       = Inr ''X''
   \<and> fst (runCognitiveCycle String_undefined flag_task ''demo.think-oncextra'' (demo_window 50))
       = Inl (Error (''CONSTITUTIONAL_VIOLATION: Scope '' @ quoted ''demo.think-oncextra''
                      @ '' not authorized (authorized: '' @ quoted ''demo.think-once'' @ '')''))
   \<and> read_array
        (getAuditLog (snd (runCognitiveCycle String_undefined flag_task ''demo.think-oncextra''
                             (demo_window 50))))
        (snd (runCognitiveCycle String_undefined flag_task ''demo.think-oncextra''
                (demo_window 50)))
       = [ \<lparr> type = CONSTITUTIONAL_VIOLATION, timestamp = Finite 50,
             reason = ''unauthorized_cognition'', AuditEvent.stg_open_id = Some ''id-1'',
             AuditEvent.scope = Some ''demo.think-oncextra'',
             metadata = Some [(''authorized_scope'', JString ''demo.think-once'')] \<rparr> ]
   \<and> ext (snd (runCognitiveCycle String_undefined flag_task ''demo.think-oncextra''
                  (demo_window 50))) = False
   \<and> (\<exists>msg. fst (runCognitiveCycle String_undefined flag_task ''demo'' (demo_window 50))
                = Inl (Error msg))"
  using runCognitiveCycle_scope_authorization
          [of "demo_window 50" "''demo.think-once''" "''demo.think-once''"
              String_undefined flag_task]
        runCognitiveCycle_scope_authorization
          [of "demo_window 50" "''demo.think-once''" "''demo.think-once.step''"
              String_undefined flag_task]
        runCognitiveCycle_scope_authorization
          [of "demo_window 50" "''demo.think-once''" "''demo.think-oncextra''"
              String_undefined flag_task]
        runCognitiveCycle_scope_authorization
          [of "demo_window 50" "''demo.think-once''" "''demo''" String_undefined flag_task]
  by (simp add: Let_def runs_task_def demo_window_simps expired_def js_gt_def flag_task_def
        logAuditEvent_def read_array_def getAuditLog_def Date_now_def)

text \<open>
  C2. When the window is not open, every call, whatever its task and scope, throws and
  appends one \<open>CONSTITUTIONAL_VIOLATION\<close> with reason \<open>no_stg_open\<close>; the world after the
  call is the world before it with that one event appended, so the task has not run.
\<close>

theorem runCognitiveCycle_closed_window:
  assumes "state (var_state w) \<noteq> OPEN"
  shows "let violation = \<lparr> type = CONSTITUTIONAL_VIOLATION, timestamp = Date_now w,
                           reason = ''no_stg_open'', AuditEvent.stg_open_id = None,
                           AuditEvent.scope = Some requestedScope,
                           metadata = Some [(''state'', JString ''CLOSED'')] \<rparr>;
             R = runCognitiveCycle toStr task requestedScope w
         in fst R = Inl (Error ''CONSTITUTIONAL_VIOLATION: Cognition attempted without STG_OPEN'')
          \<and> snd R = logAuditEvent violation w
          \<and> read_array (getAuditLog (snd R)) (snd R)
              = read_array (getAuditLog w) w @ [violation]
          \<and> var_state (snd R) = var_state w \<and> ext (snd R) = ext w
          \<and> clock (snd R) = clock w"
  unfolding runCognitiveCycle_not_open[OF assms]
  by (simp add: logAuditEvent_def read_array_def getAuditLog_def)

text \<open>
  C2, at module load (the window is closed), with a task that would set the flag and
  throw an error of its own.
\<close>

theorem runCognitiveCycle_closed_window_witness:
  "state (var_state (initial_world 0 False)) \<noteq> OPEN
   \<and> fst (runCognitiveCycle String_undefined throwing_task ''cognition.test'' (initial_world 0 False))
       = Inl (Error ''CONSTITUTIONAL_VIOLATION: Cognition attempted without STG_OPEN'')
   \<and> ext (snd (runCognitiveCycle String_undefined throwing_task ''cognition.test'' (initial_world 0 False)))
       = False
   \<and> map reason (read_array 0 (snd (runCognitiveCycle String_undefined throwing_task ''cognition.test''
                                   (initial_world 0 False))))
       = [''no_stg_open'']"
  using runCognitiveCycle_closed_window
          [of "initial_world 0 False" "''cognition.test''" String_undefined throwing_task]
  by (simp add: Let_def initial_world_def logAuditEvent_def read_array_def)

text \<open>
  C3. \<open>evaluateGate\<close> returns the decision and reason of the first matching rule of the
  ordered list: cooldown active, intent not authorized, resources not ok, prediction
  error at most the threshold, novelty at most the threshold, otherwise open. An active
  cooldown wins over every later rule, and a signal equal to its threshold is denied.
\<close>

theorem evaluateGate_first_matching_rule:
  "first_match (spec_rules signals policy now cooldownUntil)
     = Some (evaluateGate signals policy now cooldownUntil)
   \<and> (js_lt now cooldownUntil \<longrightarrow>
        evaluateGate signals policy now cooldownUntil
          = \<lparr> decision = DENY, GateResult.reason = ''cooldown_active'' \<rparr>)
   \<and> (\<not> js_lt now cooldownUntil \<and> intent_authorized signals \<and> resources_ok signals
        \<and> prediction_error signals = epsilon_prediction_error policy
        \<and> epsilon_prediction_error policy \<noteq> NaN \<longrightarrow>
        evaluateGate signals policy now cooldownUntil
          = \<lparr> decision = DENY, GateResult.reason = ''low_prediction_error'' \<rparr>)
   \<and> (\<not> js_lt now cooldownUntil \<and> intent_authorized signals \<and> resources_ok signals
        \<and> \<not> js_le (prediction_error signals) (epsilon_prediction_error policy)
        \<and> novelty_delta signals = delta_novelty policy
        \<and> delta_novelty policy \<noteq> NaN \<longrightarrow>
        evaluateGate signals policy now cooldownUntil
          = \<lparr> decision = DENY, GateResult.reason = ''low_novelty'' \<rparr>)"
proof -
  have refl_le: "\<And>a. a \<noteq> NaN \<Longrightarrow> js_le a a"
  proof -
    fix a show "a \<noteq> NaN \<Longrightarrow> js_le a a" by (cases a) (simp_all add: js_le_def)
  qed
  show ?thesis
    by (simp add: spec_rules_def evaluateGate_def refl_le)
qed

text \<open>
  C3, on the policy of the tests: a cooldown that is active while the intent is not
  authorized, a prediction error equal to its threshold, a novelty equal to its
  threshold, and signals above both thresholds.
\<close>

theorem evaluateGate_first_matching_rule_witness:
  "js_lt (Finite 10) (Finite 20) \<and> \<not> intent_authorized (demo_signals 5 5 True False)
   \<and> evaluateGate (demo_signals 5 5 True False) demo_policy (Finite 10) (Finite 20)
       = \<lparr> decision = DENY, GateResult.reason = ''cooldown_active'' \<rparr>
   \<and> evaluateGate (demo_signals (1/10) 5 True True) demo_policy (Finite 30) (Finite 20)
       = \<lparr> decision = DENY, GateResult.reason = ''low_prediction_error'' \<rparr>
   \<and> evaluateGate (demo_signals 5 (1/10) True True) demo_policy (Finite 30) (Finite 20)
       = \<lparr> decision = DENY, GateResult.reason = ''low_novelty'' \<rparr>
   \<and> first_match (spec_rules (demo_signals 5 5 True True) demo_policy (Finite 30) (Finite 20))
       = Some (evaluateGate (demo_signals 5 5 True True) demo_policy (Finite 30) (Finite 20))"
  using evaluateGate_first_matching_rule [of "demo_signals 5 5 True False" demo_policy "Finite 10" "Finite 20"]
        evaluateGate_first_matching_rule [of "demo_signals (1/10) 5 True True" demo_policy "Finite 30" "Finite 20"]
        evaluateGate_first_matching_rule [of "demo_signals 5 (1/10) True True" demo_policy "Finite 30" "Finite 20"]
        evaluateGate_first_matching_rule [of "demo_signals 5 5 True True" demo_policy "Finite 30" "Finite 20"]
  by (simp add: demo_signals_def demo_policy_def js_le_def)

text \<open>
  C4, as stated, fails: \<open>createSTGPolicy\<close> checks nothing. Given negative thresholds, a
  negative cooldown and no allowed scope it returns a policy with those values.
\<close>

theorem createSTGPolicy_accepts_invalid_params:
  "js_lt (p_epsilon_prediction_error bad_params) (Finite 0)
   \<and> js_lt (p_cooldown_duration_ms bad_params) (Finite 0)
   \<and> p_allowed_scopes bad_params = []
   \<and> (createSTGPolicy bad_params :: unit thrown + STGPolicy)
       = Inr \<lparr> epsilon_prediction_error = Finite (- 1),
               delta_novelty = Finite (- 1),
               max_cognitive_duration_ms = Finite (- 5000),
               max_compute_budget = Finite (- 1000),
               cooldown_duration_ms = Finite (- 10000),
               allowed_scopes = {},
               policy_hash = ''test-policy-hash'' \<rparr>"
  by (simp add: createSTGPolicy_def bad_params_def)

text \<open>
  C4, amended. \<open>createSTGPolicy\<close> returns a policy for every argument, valid or not, and
  never raises an error: the policy has the fields of the argument, its allowed scopes
  being the set of the scopes given.
\<close>

theorem createSTGPolicy_never_fails:
  "\<exists>policy. (createSTGPolicy params :: 'x thrown + STGPolicy) = Inr policy
     \<and> epsilon_prediction_error policy = p_epsilon_prediction_error params
     \<and> delta_novelty policy = p_delta_novelty params
     \<and> max_cognitive_duration_ms policy = p_max_cognitive_duration_ms params
     \<and> max_compute_budget policy = p_max_compute_budget params
     \<and> cooldown_duration_ms policy = p_cooldown_duration_ms params
     \<and> allowed_scopes policy = set (p_allowed_scopes params)
     \<and> policy_hash policy = p_policy_hash params"
  by (simp add: createSTGPolicy_def)

text \<open>
  C5. \<open>getAuditLog\<close> returns the array that \<open>_log\<close> refers to, not a copy of it. After
  one event is logged the array read through the result has that event; once the caller
  truncates the array it was given, the next \<open>getAuditLog\<close> reads an empty log.
\<close>

theorem getAuditLog_exposes_backing_array:
  "read_array (getAuditLog (logAuditEvent sample_event (initial_world 0 ())))
              (logAuditEvent sample_event (initial_world 0 ()))
     = [sample_event]
   \<and> read_array
       (getAuditLog (mutate_array (getAuditLog (logAuditEvent sample_event (initial_world 0 ())))
                       array_truncate (logAuditEvent sample_event (initial_world 0 ()))))
       (mutate_array (getAuditLog (logAuditEvent sample_event (initial_world 0 ())))
                       array_truncate (logAuditEvent sample_event (initial_world 0 ())))
     = []"
  by (simp add: logAuditEvent_def initial_world_def getAuditLog_def mutate_array_def
        read_array_def array_truncate_def)

text \<open>
  C6. In an open window and for an authorized scope: when \<open>expires_at\<close> is set and
  \<open>now <= expires_at\<close> the call runs the task (\<open>runs_task\<close>); when \<open>now > expires_at\<close>
  the call throws, whatever the task, and the world after it is the world before it
  with one event appended to the log, a \<open>CONSTITUTIONAL_VIOLATION\<close> with reason
  \<open>stg_expired\<close>; when \<open>expires_at\<close> is \<open>null\<close> the call runs the task.
\<close>

theorem runCognitiveCycle_expiry_boundary:
  assumes "state (var_state w) = OPEN"
      and "isScopeAuthorized s (STGState.scope (var_state w))"
  shows "let now = Date_now w;
             R = runCognitiveCycle toStr task s w
         in (\<forall>e. expires_at (var_state w) = Some e \<and> js_le now e \<longrightarrow>
               runs_task toStr task s w)
          \<and> (\<forall>e. expires_at (var_state w) = Some e \<and> js_gt now e \<longrightarrow>
               (let violation = \<lparr> type = CONSTITUTIONAL_VIOLATION, timestamp = now,
                                   reason = ''stg_expired'',
                                   AuditEvent.stg_open_id = STGState.stg_open_id (var_state w),
                                   AuditEvent.scope = Some s,
                                   metadata = Some [(''expires_at'', JNumber e),
                                                    (''now'', JNumber now)] \<rparr>
                in fst R = Inl (Error ''CONSTITUTIONAL_VIOLATION: STG_OPEN has expired'')
                 \<and> snd R = logAuditEvent violation w
                 \<and> read_array (getAuditLog (snd R)) (snd R)
                     = read_array (getAuditLog w) w @ [violation]
                 \<and> var_state (snd R) = var_state w \<and> ext (snd R) = ext w
                 \<and> clock (snd R) = clock w))
          \<and> (expires_at (var_state w) = None \<longrightarrow> runs_task toStr task s w)"
proof -
  have a: "\<And>e. expires_at (var_state w) = Some e \<Longrightarrow> js_le (Date_now w) e \<Longrightarrow>
             runs_task toStr task s w"
  proof -
    fix e assume "expires_at (var_state w) = Some e" and "js_le (Date_now w) e"
    then have "\<not> expired (var_state w) (Date_now w)"
      by (simp add: expired_def js_le_not_gt)
    then show "runs_task toStr task s w"
      by (rule runCognitiveCycle_runs_task[OF assms(1) _ assms(2)])
  qed
  have b: "expires_at (var_state w) = None \<Longrightarrow> runs_task toStr task s w"
  proof -
    assume "expires_at (var_state w) = None"
    then have "\<not> expired (var_state w) (Date_now w)"
      by (simp add: expired_def)
    then show "runs_task toStr task s w"
      by (rule runCognitiveCycle_runs_task[OF assms(1) _ assms(2)])
  qed
  have c: "\<And>e. expires_at (var_state w) = Some e \<Longrightarrow> js_gt (Date_now w) e \<Longrightarrow>
     (let violation = \<lparr> type = CONSTITUTIONAL_VIOLATION, timestamp = Date_now w,
                                   reason = ''stg_expired'',
                                   AuditEvent.stg_open_id = STGState.stg_open_id (var_state w),
                                   AuditEvent.scope = Some s,
                                   metadata = Some [(''expires_at'', JNumber e),
                                                    (''now'', JNumber (Date_now w))] \<rparr>;
          R = runCognitiveCycle toStr task s w
      in fst R = Inl (Error ''CONSTITUTIONAL_VIOLATION: STG_OPEN has expired'')
                 \<and> snd R = logAuditEvent violation w
                 \<and> read_array (getAuditLog (snd R)) (snd R)
                     = read_array (getAuditLog w) w @ [violation]
                 \<and> var_state (snd R) = var_state w \<and> ext (snd R) = ext w
                 \<and> clock (snd R) = clock w)"
  proof -
    fix e assume e: "expires_at (var_state w) = Some e" and gt: "js_gt (Date_now w) e"
    show "?thesis e"
      unfolding Let_def runCognitiveCycle_expired[OF assms(1) e gt]
      by (simp add: logAuditEvent_appends logAuditEvent_frame)
  qed
  show ?thesis
    unfolding Let_def using a b c[unfolded Let_def] by blast
qed

text \<open>
  C6, on the window that expires at 100: a call at 50 and a call at 100 run the task and
  the log shows the start and the end; a call at 101 is refused, the log holds the
  violation alone and the flag is not set; a window without expiry still admits a call
  at time 1000000.
\<close>

theorem runCognitiveCycle_expiry_boundary_witness:
  "state (var_state (demo_window 50)) = OPEN
   \<and> isScopeAuthorized ''demo.think-once'' (STGState.scope (var_state (demo_window 50)))
   \<and> expires_at (var_state (demo_window 50)) = Some (Finite 100)
   \<and> fst (runCognitiveCycle String_undefined flag_task ''demo.think-once'' (demo_window 50))
       = Inr ''X''
   \<and> map reason
        (read_array
          (getAuditLog (snd (runCognitiveCycle String_undefined flag_task ''demo.think-once''
                               (demo_window 50))))
          (snd (runCognitiveCycle String_undefined flag_task ''demo.think-once''
                  (demo_window 50))))
       = [''authorized'', ''completed'']
   \<and> fst (runCognitiveCycle String_undefined flag_task ''demo.think-once'' (demo_window 100))
       = Inr ''X''
   \<and> fst (runCognitiveCycle String_undefined flag_task ''demo.think-once'' (demo_window 101))
       = Inl (Error ''CONSTITUTIONAL_VIOLATION: STG_OPEN has expired'')
   \<and> read_array
        (getAuditLog (snd (runCognitiveCycle String_undefined flag_task ''demo.think-once''
                             (demo_window 101))))
        (snd (runCognitiveCycle String_undefined flag_task ''demo.think-once''
                (demo_window 101)))
       = [ \<lparr> type = CONSTITUTIONAL_VIOLATION, timestamp = Finite 101,
             reason = ''stg_expired'', AuditEvent.stg_open_id = Some ''id-1'',
             AuditEvent.scope = Some ''demo.think-once'',
             metadata = Some [(''expires_at'', JNumber (Finite 100)),
                              (''now'', JNumber (Finite 101))] \<rparr> ]
   \<and> ext (snd (runCognitiveCycle String_undefined flag_task ''demo.think-once''
                  (demo_window 101))) = False
   \<and> expires_at (var_state (unbounded_window 1000000)) = None
   \<and> fst (runCognitiveCycle String_undefined flag_task ''demo.think-once''
            (unbounded_window 1000000))
       = Inr ''X''"
  using runCognitiveCycle_expiry_boundary
          [of "demo_window 50" "''demo.think-once''" String_undefined flag_task]
        runCognitiveCycle_expiry_boundary
          [of "demo_window 100" "''demo.think-once''" String_undefined flag_task]
        runCognitiveCycle_expiry_boundary
          [of "demo_window 101" "''demo.think-once''" String_undefined flag_task]
        runCognitiveCycle_expiry_boundary
          [of "unbounded_window 1000000" "''demo.think-once''" String_undefined flag_task]
  by (simp add: Let_def runs_task_def demo_window_simps isScopeAuthorized_Some js_gt_def
        js_le_def flag_task_def unbounded_window_def setSTGState_def initial_world_def
        logAuditEvent_def read_array_def getAuditLog_def Date_now_def)

text \<open>
  C7. A burst of any number of attempts, each unauthorized in the window state the burst
  starts in (window not open, expired at the time of the attempt, or scope not covered):
  every attempt throws, the log grows by exactly one \<open>CONSTITUTIONAL_VIOLATION\<close> per
  attempt, and apart from the log and the clock the world, the window state and
  everything a task could have written included, is what it was before the burst.
\<close>

theorem attempts_unauthorized_burst:
  assumes "\<forall>(t, task, requestedScope) \<in> set calls.
             unauthorized (var_state w) (Finite (real_of_int t)) requestedScope"
  shows "let outcomes = fst (attempts toStr calls w);
             w' = snd (attempts toStr calls w);
             before = read_array (getAuditLog w) w;
             after = read_array (getAuditLog w') w'
         in length outcomes = length calls
          \<and> (\<forall>r \<in> set outcomes. \<exists>msg. r = Inl (Error msg))
          \<and> (\<exists>evs c. length evs = length calls
                \<and> (\<forall>ev \<in> set evs. type ev = CONSTITUTIONAL_VIOLATION)
                \<and> after = before @ evs
                \<and> w' = w\<lparr> clock := c, arrays := (arrays w)(var_log w := before @ evs) \<rparr>)
          \<and> length (filter (\<lambda>ev. type ev = CONSTITUTIONAL_VIOLATION) after)
              = length (filter (\<lambda>ev. type ev = CONSTITUTIONAL_VIOLATION) before) + length calls
          \<and> var_state w' = var_state w
          \<and> ext w' = ext w"
proof -
  from attempts_unauthorized[OF assms, of toStr]
  obtain evs c where
    w': "snd (attempts toStr calls w)
           = w\<lparr> clock := c, arrays := (arrays w)(var_log w := arrays w (var_log w) @ evs) \<rparr>"
    and len: "length evs = length calls"
    and types: "\<forall>ev \<in> set evs. type ev = CONSTITUTIONAL_VIOLATION"
    and lenr: "length (fst (attempts toStr calls w)) = length calls"
    and errs: "\<forall>r \<in> set (fst (attempts toStr calls w)). \<exists>msg. r = Inl (Error msg)"
    by blast
  have after: "read_array (getAuditLog (snd (attempts toStr calls w))) (snd (attempts toStr calls w))
                 = read_array (getAuditLog w) w @ evs"
    unfolding w' by (simp add: read_array_def getAuditLog_def)
  have all: "filter (\<lambda>ev. type ev = CONSTITUTIONAL_VIOLATION) evs = evs"
    using types by (simp add: filter_id_conv)
  have frame: "snd (attempts toStr calls w)
      = w\<lparr> clock := c, arrays := (arrays w)(var_log w := read_array (getAuditLog w) w @ evs) \<rparr>"
    unfolding w' by (simp add: read_array_def getAuditLog_def)
  have ex: "\<exists>evs' c'. length evs' = length calls
              \<and> (\<forall>ev \<in> set evs'. type ev = CONSTITUTIONAL_VIOLATION)
              \<and> read_array (getAuditLog w) w @ evs = read_array (getAuditLog w) w @ evs'
              \<and> snd (attempts toStr calls w)
                  = w\<lparr> clock := c',
                       arrays := (arrays w)(var_log w := read_array (getAuditLog w) w @ evs') \<rparr>"
    using len types frame by blast
  have count: "length (filter (\<lambda>ev. type ev = CONSTITUTIONAL_VIOLATION)
                         (read_array (getAuditLog w) w @ evs))
                 = length (filter (\<lambda>ev. type ev = CONSTITUTIONAL_VIOLATION)
                             (read_array (getAuditLog w) w)) + length calls"
    by (simp add: all len)
  have st: "var_state (snd (attempts toStr calls w)) = var_state w"
    unfolding w' by simp
  have ex_t: "ext (snd (attempts toStr calls w)) = ext w"
    unfolding w' by simp
  show ?thesis
    unfolding Let_def after
    using lenr errs ex count st ex_t by blast
qed

text \<open>
  C7, on the demo window: three attempts, two after expiry and one for a foreign scope,
  two of them with a task that would set the flag.
\<close>

theorem attempts_unauthorized_burst_witness:
  "unauthorized (var_state (demo_window 0)) (Finite 150) ''demo.think-once''
   \<and> unauthorized (var_state (demo_window 0)) (Finite 50) ''cognition.runaway''
   \<and> unauthorized (var_state (demo_window 0)) (Finite 200) ''demo.think-once''
   \<and> length burst_calls = 3
   \<and> length (fst (attempts String_undefined burst_calls (demo_window 0))) = 3
   \<and> length (read_array (getAuditLog (snd (attempts String_undefined burst_calls (demo_window 0))))
                         (snd (attempts String_undefined burst_calls (demo_window 0)))) = 3
   \<and> ext (snd (attempts String_undefined burst_calls (demo_window 0))) = False
   \<and> var_state (snd (attempts String_undefined burst_calls (demo_window 0)))
       = var_state (demo_window 0)"
proof -
  have hyp: "\<forall>(t, task, requestedScope) \<in> set burst_calls.
       unauthorized (var_state (demo_window 0)) (Finite (real_of_int t)) requestedScope"
    by (simp add: burst_calls_def unauthorized_def demo_window_simps expired_def js_gt_def
          isScopeAuthorized_Some)
  have len: "length burst_calls = 3"
    by (simp add: burst_calls_def)
  have before: "read_array (getAuditLog (demo_window 0)) (demo_window 0) = []"
    by (simp add: read_array_def getAuditLog_def demo_window_simps)
  have flag: "ext (demo_window 0) = False"
    by (simp add: demo_window_simps)
  have each: "unauthorized (var_state (demo_window 0)) (Finite 150) ''demo.think-once''
      \<and> unauthorized (var_state (demo_window 0)) (Finite 50) ''cognition.runaway''
      \<and> unauthorized (var_state (demo_window 0)) (Finite 200) ''demo.think-once''"
    using hyp by (simp add: burst_calls_def)
  from attempts_unauthorized_burst [OF hyp, of String_undefined]
  show ?thesis
    unfolding Let_def before len flag using each by auto
qed

text \<open>
  C8. A task that throws an object without prototype, in the demo window at time 50.
  The \<open>catch\<close> block converts the object to a string before it logs and before it
  throws again; the conversion throws a \<open>TypeError\<close>. The call throws that
  \<open>TypeError\<close>, not the object the task threw, and the log ends with
  \<open>COGNITION_START\<close>: no \<open>COGNITION_END\<close> was appended.
\<close>

theorem runCognitiveCycle_conversion_throws:
  "fst (opaque_throw_task
         (logAuditEvent \<lparr> type = COGNITION_START, timestamp = Finite 50,
            reason = ''authorized'', AuditEvent.stg_open_id = Some ''id-1'',
            AuditEvent.scope = Some ''demo.think-once'', metadata = None \<rparr> (demo_window 50)))
     = Inl (Thrown Null_prototype_object)
   \<and> fst (runCognitiveCycle String_sample opaque_throw_task ''demo.think-once'' (demo_window 50))
       = Inl (Thrown Cannot_convert_TypeError)
   \<and> map type
        (read_array
          (getAuditLog (snd (runCognitiveCycle String_sample opaque_throw_task
                               ''demo.think-once'' (demo_window 50))))
          (snd (runCognitiveCycle String_sample opaque_throw_task ''demo.think-once''
                  (demo_window 50))))
       = [COGNITION_START]
   \<and> ext (snd (runCognitiveCycle String_sample opaque_throw_task ''demo.think-once''
                  (demo_window 50))) = True"
  by (simp add: runCognitiveCycle_def Let_def getSTGState_def demo_window_simps expired_def
        js_gt_def isScopeAuthorized_def startsWith_def opaque_throw_task_def logAuditEvent_def
        read_array_def getAuditLog_def Date_now_def)

text \<open>
  C9. After \<open>closeSTG\<close> the state is \<open>CLOSED\<close>, its \<open>scope\<close>, \<open>stg_open_id\<close> and
  \<open>expires_at\<close> are \<open>null\<close>, and \<open>cooldown_until\<close> (like \<open>last_open_time\<close>) is the one of
  the state before, whatever \<open>now\<close> is; nothing but the window state is written.
\<close>

theorem closeSTG_closed_cooldown_verbatim:
  "state (var_state (closeSTG now w)) = CLOSED
   \<and> STGState.scope (var_state (closeSTG now w)) = None
   \<and> STGState.stg_open_id (var_state (closeSTG now w)) = None
   \<and> expires_at (var_state (closeSTG now w)) = None
   \<and> cooldown_until (var_state (closeSTG now w)) = cooldown_until (var_state w)
   \<and> last_open_time (var_state (closeSTG now w)) = last_open_time (var_state w)
   \<and> closeSTG now w = w\<lparr> var_state := var_state (closeSTG now w) \<rparr>"
  by (simp add: closeSTG_def)

text \<open>
  C10. \<open>runExecution\<close> compares the scopes for equality only. In an open window that has
  not expired, a requested scope that starts with the authorized scope followed by a dot
  differs from it, so \<open>runExecution\<close> logs a \<open>CONSTITUTIONAL_VIOLATION\<close> with reason
  \<open>unauthorized_execution\<close> and throws, whatever the callback; \<open>runCognitiveCycle\<close> runs
  the same callback for the same scope (\<open>runs_task\<close>).
\<close>

theorem runExecution_rejects_descendant_scope:
  assumes "state (var_state w) = OPEN"
      and "\<not> expired (var_state w) (Date_now w)"
      and "STGState.scope (var_state w) = Some a"
      and "prefix (a @ ''.'') s"
  shows "s \<noteq> a
       \<and> runExecution toText s execute request_id w
           = (Inl (Error (''CONSTITUTIONAL_VIOLATION: Execution scope '' @ quoted s
                           @ '' not authorized (authorized: '' @ quoted a @ '')'')),
              logAuditEvent \<lparr> type = CONSTITUTIONAL_VIOLATION, timestamp = Date_now w,
                reason = ''unauthorized_execution'', AuditEvent.stg_open_id = None,
                AuditEvent.scope = Some s,
                metadata = Some [(''authorized_scope'', JString a)] \<rparr> w)
       \<and> runs_task toStr execute s w"
proof -
  from assms(4) have ne: "s \<noteq> a"
    by (auto simp: prefix_def)
  have auth: "isScopeAuthorized s (STGState.scope (var_state w))"
    by (simp add: assms(3,4) isScopeAuthorized_Some)
  have exec: "runExecution toText s execute request_id w
           = (Inl (Error (''CONSTITUTIONAL_VIOLATION: Execution scope '' @ quoted s
                           @ '' not authorized (authorized: '' @ quoted a @ '')'')),
              logAuditEvent \<lparr> type = CONSTITUTIONAL_VIOLATION, timestamp = Date_now w,
                reason = ''unauthorized_execution'', AuditEvent.stg_open_id = None,
                AuditEvent.scope = Some s,
                metadata = Some [(''authorized_scope'', JString a)] \<rparr> w)"
    using ne assms(1,2,3) by (auto simp add: runExecution_def Let_def getSTGState_def)
  show ?thesis
    using ne exec runCognitiveCycle_runs_task[OF assms(1,2) auth, of toStr execute] by blast
qed

text \<open>
  C10, on the demo window at time 50, for the scope \<open>demo.think-once.step\<close>.
\<close>

theorem runExecution_rejects_descendant_scope_witness:
  "state (var_state (demo_window 50)) = OPEN
   \<and> \<not> expired (var_state (demo_window 50)) (Date_now (demo_window 50))
   \<and> STGState.scope (var_state (demo_window 50)) = Some ''demo.think-once''
   \<and> prefix (''demo.think-once'' @ ''.'') ''demo.think-once.step''
   \<and> fst (runExecution text_undefined ''demo.think-once.step'' flag_task None (demo_window 50))
       = Inl (Error (''CONSTITUTIONAL_VIOLATION: Execution scope '' @ quoted ''demo.think-once.step''
                      @ '' not authorized (authorized: '' @ quoted ''demo.think-once'' @ '')''))
   \<and> ext (snd (runExecution text_undefined ''demo.think-once.step'' flag_task None (demo_window 50)))
       = False
   \<and> map reason (read_array 0 (snd (runExecution text_undefined ''demo.think-once.step'' flag_task None
                                       (demo_window 50))))
       = [''unauthorized_execution'']
   \<and> fst (runCognitiveCycle String_undefined flag_task ''demo.think-once.step'' (demo_window 50))
       = Inr ''X''"
  using runExecution_rejects_descendant_scope
          [of "demo_window 50" "''demo.think-once''" "''demo.think-once.step''"
              text_undefined flag_task None String_undefined]
  by (simp add: Let_def runs_task_def demo_window_simps expired_def js_gt_def flag_task_def
        logAuditEvent_def read_array_def getAuditLog_def Date_now_def)

end
